theory Spec2Isabelle
  imports Complex_Main
begin

section \<open>Numbers\<close>

text \<open>
  The program computes with Python floats, which are IEEE 754 doubles. A float is
  modelled by its exact value: a rational number, or one of the three special values.
  The special values follow IEEE 754 as Python exposes it, and a division by zero
  raises \<open>ZeroDivisionError\<close> as Python's \<open>/\<close> does for every dividend.

  Finite arithmetic is exact. What the doubles add is not modelled: every operation,
  \<open>float\<close> of a string and \<open>round\<close> round their result to the nearest double, a
  difference of two nearly equal numbers loses its leading digits, the sum \<open>1 + r\<close> is
  1 for a monthly rate \<open>r\<close> below about 1e-16, and \<open>**\<close> raises \<open>OverflowError\<close> when the power
  exceeds the largest double. Model and source agree to a small fraction of a cent where
  the amount, the rate and the tenure are those of a loan: an amount between 10000 and
  5000000, a rate between 0.5 and 40 per cent a year, a tenure between 12 and 72 months.
  The general statements below about the values of a payment are restricted to that
  range, or take the computed payment as given.
\<close>

datatype py_error = ValueError | ZeroDivisionError | IssuanceError

datatype pyfloat = Fin rat | PInf | NInf | NaN

text \<open>Python's \<open>a < b\<close> and \<open>a <= b\<close> on floats: every comparison with NaN is false.\<close>

fun flt :: "pyfloat \<Rightarrow> pyfloat \<Rightarrow> bool" where
  "flt NaN _ = False"
| "flt _ NaN = False"
| "flt (Fin a) (Fin b) = (a < b)"
| "flt _ NInf = False"
| "flt NInf _ = True"
| "flt PInf _ = False"
| "flt _ PInf = True"

fun fle :: "pyfloat \<Rightarrow> pyfloat \<Rightarrow> bool" where
  "fle NaN _ = False"
| "fle _ NaN = False"
| "fle (Fin a) (Fin b) = (a \<le> b)"
| "fle NInf _ = True"
| "fle _ NInf = False"
| "fle _ PInf = True"
| "fle PInf _ = False"

definition fgt :: "pyfloat \<Rightarrow> pyfloat \<Rightarrow> bool" where
  "fgt a b = flt b a"

text \<open>Multiplication and division of a float by a finite number.\<close>

fun fmul :: "pyfloat \<Rightarrow> rat \<Rightarrow> pyfloat" where
  "fmul (Fin a) b = Fin (a * b)"
| "fmul NaN b = NaN"
| "fmul PInf b = (if b = 0 then NaN else if 0 < b then PInf else NInf)"
| "fmul NInf b = (if b = 0 then NaN else if 0 < b then NInf else PInf)"

fun fdiv :: "pyfloat \<Rightarrow> rat \<Rightarrow> py_error + pyfloat" where
  "fdiv a b =
     (if b = 0 then Inl ZeroDivisionError
      else case a of
             Fin x \<Rightarrow> Inr (Fin (x / b))
           | NaN \<Rightarrow> Inr NaN
           | PInf \<Rightarrow> Inr (if 0 < b then PInf else NInf)
           | NInf \<Rightarrow> Inr (if 0 < b then NInf else PInf))"

text \<open>
  Python's \<open>x ** n\<close> for a float \<open>x\<close> and an int \<open>n\<close>: a negative exponent is the
  reciprocal, and \<open>0.0 ** n\<close> raises for negative \<open>n\<close>. The power is exact here; the
  \<open>OverflowError\<close> of a power beyond the largest double is not modelled.
\<close>

definition py_pow :: "rat \<Rightarrow> int \<Rightarrow> py_error + rat" where
  "py_pow x n =
     (if 0 \<le> n then Inr (x ^ nat n)
      else if x = 0 then Inl ZeroDivisionError
      else Inr (1 / x ^ nat (- n)))"

text \<open>
  Python's \<open>round\<close> rounds to the nearest value and a tie to the even neighbour.
  \<open>round(x, 2)\<close> and \<open>round(x, 0)\<close> return a float and leave the special values as
  they are. The source rounds the double it has computed, which can lie on the other
  side of a tie than the exact value.
\<close>

definition round_half_even :: "rat \<Rightarrow> int" where
  "round_half_even y =
     (let f = \<lfloor>y\<rfloor>; d = y - of_int f
      in if d < 1 / 2 then f
         else if 1 / 2 < d then f + 1
         else if even f then f else f + 1)"

fun py_round2 :: "pyfloat \<Rightarrow> pyfloat" where
  "py_round2 (Fin x) = Fin (of_int (round_half_even (x * 100)) / 100)"
| "py_round2 x = x"

fun py_round0 :: "pyfloat \<Rightarrow> pyfloat" where
  "py_round0 (Fin x) = Fin (of_int (round_half_even x))"
| "py_round0 x = x"

section \<open>Financial calculator\<close>

text \<open>
  \<open>calculate_emi\<close> is defined twice in the source, in the sales agent and in the
  underwriting agent, with the same body; one definition stands for both.
\<close>

definition calculate_emi :: "pyfloat \<Rightarrow> rat \<Rightarrow> int \<Rightarrow> py_error + pyfloat" where
  "calculate_emi principal_amt annual_rate tenure_months =
     (if annual_rate = 0 then fdiv principal_amt (of_int tenure_months)
      else
        let monthly_rate = annual_rate / (12 * 100) in
        case py_pow (1 + monthly_rate) tenure_months of
          Inl e \<Rightarrow> Inl e
        | Inr pw \<Rightarrow>
            (case fdiv (fmul (fmul principal_amt monthly_rate) pw) (pw - 1) of
               Inl e \<Rightarrow> Inl e
             | Inr emi \<Rightarrow> Inr (py_round2 emi)))"

definition calculate_max_loan_for_emi :: "pyfloat \<Rightarrow> rat \<Rightarrow> int \<Rightarrow> py_error + pyfloat" where
  "calculate_max_loan_for_emi max_emi annual_rate tenure_months =
     (if annual_rate = 0 then Inr (fmul max_emi (of_int tenure_months))
      else
        let monthly_rate = annual_rate / (12 * 100) in
        case py_pow (1 + monthly_rate) tenure_months of
          Inl e \<Rightarrow> Inl e
        | Inr pw \<Rightarrow>
            (case fdiv (fmul max_emi (pw - 1)) (monthly_rate * pw) of
               Inl e \<Rightarrow> Inl e
             | Inr principal_amt \<Rightarrow> Inr (py_round0 principal_amt)))"

section \<open>Strings\<close>

text \<open>
  A Python \<open>str\<close> is modelled by the bytes of its UTF-8 encoding. The string methods
  are modelled on ASCII: white space is the six ASCII white-space characters and the
  four ASCII separators that \<open>str.isspace\<close> accepts, digits are \<open>0\<close> to \<open>9\<close>, and
  \<open>lower\<close> maps \<open>A\<close> to \<open>Z\<close>. The rupee sign U+20B9 is the three bytes E2 82 B9.

  On an input with characters outside ASCII the model can differ from the source:
  \<open>strip\<close> also removes Unicode white space such as U+00A0, \<open>int\<close>, \<open>float\<close> and
  \<open>isdigit\<close> also accept the decimal digits of other scripts, and \<open>len\<close> counts code
  points where the model counts bytes. The statements below that fix an input fix an
  ASCII one.
\<close>

definition is_space :: "char \<Rightarrow> bool" where
  "is_space c = (c \<in> set [CHR 0x09, CHR 0x0A, CHR 0x0B, CHR 0x0C, CHR 0x0D,
                           CHR 0x1C, CHR 0x1D, CHR 0x1E, CHR 0x1F, CHR 0x20])"

definition py_strip :: "string \<Rightarrow> string" where
  "py_strip s = rev (dropWhile is_space (rev (dropWhile is_space s)))"

definition lower_char :: "char \<Rightarrow> char" where
  "lower_char c =
     (case map_of (zip ''ABCDEFGHIJKLMNOPQRSTUVWXYZ'' ''abcdefghijklmnopqrstuvwxyz'') c of
        Some d \<Rightarrow> d
      | None \<Rightarrow> c)"

definition py_lower :: "string \<Rightarrow> string" where
  "py_lower s = map lower_char s"

text \<open>\<open>s.replace(c, "")\<close> for a one-character \<open>c\<close>, and for the rupee sign.\<close>

definition remove_char :: "char \<Rightarrow> string \<Rightarrow> string" where
  "remove_char c s = filter (\<lambda>x. x \<noteq> c) s"

fun remove_rupee :: "string \<Rightarrow> string" where
  "remove_rupee (a # b # c # rest) =
     (if a = CHR 0xE2 \<and> b = CHR 0x82 \<and> c = CHR 0xB9 then remove_rupee rest
      else a # remove_rupee (b # c # rest))"
| "remove_rupee s = s"

definition is_digit :: "char \<Rightarrow> bool" where
  "is_digit c = (c \<in> set ''0123456789'')"

definition py_isdigit :: "string \<Rightarrow> bool" where
  "py_isdigit s = (s \<noteq> [] \<and> list_all is_digit s)"

definition digit_val :: "char \<Rightarrow> nat" where
  "digit_val c = of_char c - 48"

text \<open>
  The digit part of a numeric literal: digits, with single underscores allowed between
  two digits.
\<close>

fun digitpart :: "string \<Rightarrow> bool" where
  "digitpart [] = False"
| "digitpart [c] = is_digit c"
| "digitpart (c # d # cs) =
     (is_digit c \<and> (if d = CHR ''_'' then digitpart cs else digitpart (d # cs)))"

definition digits_val :: "string \<Rightarrow> nat" where
  "digits_val s = foldl (\<lambda>a c. 10 * a + digit_val c) 0 (filter is_digit s)"

definition split_sign :: "string \<Rightarrow> bool \<times> string" where
  "split_sign s =
     (case s of
        [] \<Rightarrow> (False, s)
      | c # cs \<Rightarrow>
          if c = CHR ''-'' then (True, cs)
          else if c = CHR ''+'' then (False, cs)
          else (False, s))"

text \<open>
  Python's \<open>int(s)\<close> on a string, base 10: optional sign and a digit part, surrounded by
  white space; anything else raises \<open>ValueError\<close>. The interpreter's limit on the number
  of digits is not modelled: such an input is far above 72 and is re-prompted either way.
\<close>

definition py_int :: "string \<Rightarrow> py_error + int" where
  "py_int str =
     (let (neg, body) = split_sign (py_strip str)
      in if digitpart body
         then Inr (if neg then - int (digits_val body) else int (digits_val body))
         else Inl ValueError)"

text \<open>
  Python's \<open>float(s)\<close> on a string: optional sign, then \<open>inf\<close>, \<open>infinity\<close> or \<open>nan\<close> in
  any case, or a decimal number with optional fraction and exponent. The value of a
  decimal number is kept exact; the source gets the nearest double, so that a literal
  within a rounding error of a bound of the intake machine can fall on the other side
  of it.
\<close>

definition is_numchar :: "char \<Rightarrow> bool" where
  "is_numchar c = (is_digit c \<or> c = CHR ''_'')"

definition parse_exponent :: "string \<Rightarrow> int option" where
  "parse_exponent s =
     (case s of
        [] \<Rightarrow> Some 0
      | c # cs \<Rightarrow>
          if c = CHR ''e'' \<or> c = CHR ''E'' then
            (let (neg, ds) = split_sign cs
             in if digitpart ds
                then Some (if neg then - int (digits_val ds) else int (digits_val ds))
                else None)
          else None)"

definition parse_decimal :: "string \<Rightarrow> rat option" where
  "parse_decimal body =
     (let ip = takeWhile is_numchar body;
          r1 = dropWhile is_numchar body;
          point = (r1 \<noteq> [] \<and> hd r1 = CHR ''.'');
          fp = (if point then takeWhile is_numchar (tl r1) else []);
          r2 = (if point then dropWhile is_numchar (tl r1) else r1)
      in if (ip = [] \<or> digitpart ip) \<and> (fp = [] \<or> digitpart fp) \<and> (ip \<noteq> [] \<or> fp \<noteq> [])
         then (case parse_exponent r2 of
                 None \<Rightarrow> None
               | Some ex \<Rightarrow>
                   let m = of_nat (digits_val (ip @ fp));
                       k = ex - int (length (filter is_digit fp))
                   in Some (if 0 \<le> k then m * 10 ^ nat k else m / 10 ^ nat (- k)))
         else None)"

definition py_float :: "string \<Rightarrow> py_error + pyfloat" where
  "py_float str =
     (let (neg, body) = split_sign (py_strip str);
          low = py_lower body
      in if low = ''inf'' \<or> low = ''infinity'' then Inr (if neg then NInf else PInf)
         else if low = ''nan'' then Inr NaN
         else (case parse_decimal body of
                 None \<Rightarrow> Inl ValueError
               | Some v \<Rightarrow> Inr (Fin (if neg then - v else v))))"

section \<open>Session, reference data and responses\<close>

text \<open>
  The customer and offer records come from the JSON files of the lookup service, which
  are not part of the source: the lists are parameters of the model.
\<close>

record customer =
  cust_id :: string
  name :: string
  city :: string
  phone :: string
  credit_score :: int
  preapproved_limit :: rat
  salary :: rat

record offer =
  offer_customer_id :: string
  offer_interest_rate :: rat

text \<open>
  The session is a Python dict. The seven keys that \<open>get_initial_state\<close> sets are always
  present; every other key is optional and absent until it is first written.
\<close>

record session =
  current_agent :: string
  conversation_stage :: string
  sales_state :: string
  verification_state :: string
  underwriting_state :: string
  loan_status :: "string option"
  kyc_verified :: bool
  loan_amount :: "pyfloat option"
  loan_tenure :: "int option"
  interest_rate :: "rat option"
  estimated_emi :: "pyfloat option"
  calculated_emi :: "pyfloat option"
  customer :: "customer option"
  customer_id :: "string option"
  offer :: "offer option"
  approved_amount :: "pyfloat option"
  sanction_letter_filename :: "string option"
  salary_slip_uploaded :: bool
  salary_slip_path :: "string option"

text \<open>
  The environment of a turn: the two reference tables and the document issuance, which
  writes a PDF and returns its file name, or fails.
\<close>

record env =
  customers :: "customer list"
  offers :: "offer list"
  issue :: "session \<Rightarrow> string option"

text \<open>
  The text of a message is not modelled: a message is the template it is built from,
  with the values that the source interpolates.
\<close>

datatype msg =
    MsgSalesInitial
  | MsgMinAmount
  | MsgMaxAmount
  | MsgAmountCaptured pyfloat
  | MsgBadAmount
  | MsgMinTenure
  | MsgMaxTenure
  | MsgLoanSummary pyfloat int rat pyfloat
  | MsgBadTenure
  | MsgProceedVerification
  | MsgCancelled
  | MsgConfirmPrompt
  | MsgVerificationInitial
  | MsgProfileFound string string string
  | MsgProfileNotFound
  | MsgBadPhone
  | MsgIdentityConfirmed
  | MsgPhoneAgain
  | MsgYesNoPrompt
  | MsgEnterPhone
  | MsgVisitBranch
  | MsgLowScore int
  | MsgApprovedWithinLimit pyfloat int rat pyfloat rat
  | MsgNeedsSalarySlip pyfloat rat
  | MsgExceedsMaximum pyfloat rat
  | MsgApprovedSalary pyfloat int rat pyfloat pyfloat
  | MsgHighEmi pyfloat rat pyfloat pyfloat
  | MsgSanctionLetter string pyfloat pyfloat
  | MsgUploadReminder
  | MsgBeingProcessed
  | MsgCompleted
  | MsgEnded
  | MsgWentWrong

text \<open>The dict a worker agent returns; an absent key is \<open>None\<close> or \<open>False\<close>.\<close>

record worker_response =
  resp_message :: "msg option"
  next_state :: "string option"
  decision :: "string option"
  reason :: "string option"
  proceed_to_verification :: bool
  proceed_to_underwriting :: bool
  proceed_to_sanction :: bool
  resp_show_upload :: bool

definition empty_response :: worker_response where
  "empty_response =
     \<lparr>resp_message = None, next_state = None, decision = None, reason = None,
      proceed_to_verification = False, proceed_to_underwriting = False,
      proceed_to_sanction = False, resp_show_upload = False\<rparr>"

definition reply :: "msg \<Rightarrow> string \<Rightarrow> worker_response" where
  "reply m st = empty_response\<lparr>resp_message := Some m, next_state := Some st\<rparr>"

text \<open>
  The response of a turn. \<open>message\<close> is the list of the parts that the source joins
  with a blank line.
\<close>

record response =
  message :: "msg list"
  show_upload :: bool
  show_download :: bool
  download_file :: "string option"
  session_ended :: bool

definition initial_response :: response where
  "initial_response =
     \<lparr>message = [], show_upload = False, show_download = False,
      download_file = None, session_ended = False\<rparr>"

definition msg_of :: "worker_response \<Rightarrow> msg list" where
  "msg_of r = (case resp_message r of None \<Rightarrow> [] | Some m \<Rightarrow> [m])"

section \<open>Sales agent\<close>

text \<open>
  Every agent mutates the session dict in place. The model returns the session after the
  call next to the result, also when the call raises: what was written before the
  exception stays written.
\<close>

definition get_loan_amount :: "session \<Rightarrow> pyfloat" where
  "get_loan_amount s = (case loan_amount s of None \<Rightarrow> Fin 0 | Some a \<Rightarrow> a)"

definition get_loan_tenure :: "session \<Rightarrow> int" where
  "get_loan_tenure s = (case loan_tenure s of None \<Rightarrow> 12 | Some t \<Rightarrow> t)"

definition get_interest_rate :: "session \<Rightarrow> rat" where
  "get_interest_rate s = (case interest_rate s of None \<Rightarrow> 21 / 2 | Some r \<Rightarrow> r)"

definition sales_process :: "session \<Rightarrow> string \<Rightarrow> (py_error + worker_response) \<times> session" where
  "sales_process s user_input =
     (let state = sales_state s in
      if state = ''ask_amount'' then
        (case py_float (py_strip (remove_rupee (remove_char CHR '','' user_input))) of
           Inl e \<Rightarrow>
             if e = ValueError then (Inr (reply MsgBadAmount ''ask_amount''), s)
             else (Inl e, s)
         | Inr amount \<Rightarrow>
             if flt amount (Fin 10000) then (Inr (reply MsgMinAmount ''ask_amount''), s)
             else if fgt amount (Fin 5000000) then (Inr (reply MsgMaxAmount ''ask_amount''), s)
             else (Inr (reply (MsgAmountCaptured amount) ''ask_tenure''),
                   s\<lparr>loan_amount := Some amount, sales_state := ''ask_tenure''\<rparr>))
      else if state = ''ask_tenure'' then
        (case py_int (py_strip user_input) of
           Inl e \<Rightarrow>
             if e = ValueError then (Inr (reply MsgBadTenure ''ask_tenure''), s)
             else (Inl e, s)
         | Inr tenure \<Rightarrow>
             if tenure < 12 then (Inr (reply MsgMinTenure ''ask_tenure''), s)
             else if 72 < tenure then (Inr (reply MsgMaxTenure ''ask_tenure''), s)
             else
               (let s1 = s\<lparr>loan_tenure := Some tenure\<rparr>;
                    amount = get_loan_amount s1;
                    rate = get_interest_rate s1
                in case calculate_emi amount rate tenure of
                     Inl e \<Rightarrow> (Inl e, s1)
                   | Inr emi \<Rightarrow>
                       (Inr (reply (MsgLoanSummary amount tenure rate emi) ''confirm''),
                        s1\<lparr>estimated_emi := Some emi, sales_state := ''confirm''\<rparr>)))
      else if state = ''confirm'' then
        (let user_response = py_strip (py_lower user_input) in
         if user_response \<in> set [''yes'', ''y'', ''proceed'', ''ok'', ''sure'', ''yeah''] then
           (Inr ((reply MsgProceedVerification ''complete'')\<lparr>proceed_to_verification := True\<rparr>),
            s\<lparr>sales_state := ''complete''\<rparr>)
         else if user_response \<in> set [''no'', ''n'', ''cancel'', ''stop''] then
           (Inr (reply MsgCancelled ''cancelled''), s\<lparr>sales_state := ''cancelled''\<rparr>)
         else (Inr (reply MsgConfirmPrompt ''confirm''), s))
      else (Inr empty_response, s))"

section \<open>Verification agent\<close>

definition find_customer_by_phone :: "env \<Rightarrow> string \<Rightarrow> customer option" where
  "find_customer_by_phone e p = find (\<lambda>c. phone c = p) (customers e)"

definition find_offer_by_customer_id :: "env \<Rightarrow> string \<Rightarrow> offer option" where
  "find_offer_by_customer_id e i = find (\<lambda>x. offer_customer_id x = i) (offers e)"

definition verification_process :: "env \<Rightarrow> session \<Rightarrow> string \<Rightarrow> worker_response \<times> session" where
  "verification_process e s user_input =
     (let state = verification_state s in
      if state = ''ask_phone'' then
        (let ph = remove_char CHR ''-'' (remove_char CHR '' '' (py_strip user_input)) in
         if length ph = 10 \<and> py_isdigit ph then
           (case find_customer_by_phone e ph of
              Some c \<Rightarrow>
                (let s1 = s\<lparr>customer := Some c, customer_id := Some (cust_id c)\<rparr>;
                     s2 = (case find_offer_by_customer_id e (cust_id c) of
                             Some x \<Rightarrow> s1\<lparr>offer := Some x,
                                           interest_rate := Some (offer_interest_rate x)\<rparr>
                           | None \<Rightarrow> s1)
                 in (reply (MsgProfileFound (name c) (city c) (phone c)) ''confirm_identity'',
                     s2\<lparr>verification_state := ''confirm_identity''\<rparr>))
            | None \<Rightarrow>
                (reply MsgProfileNotFound ''not_found'', s\<lparr>verification_state := ''not_found''\<rparr>))
         else (reply MsgBadPhone ''ask_phone'', s))
      else if state = ''confirm_identity'' then
        (let user_response = py_strip (py_lower user_input) in
         if user_response \<in> set [''yes'', ''y'', ''correct'', ''right'', ''ok''] then
           ((reply MsgIdentityConfirmed ''complete'')\<lparr>proceed_to_underwriting := True\<rparr>,
            s\<lparr>verification_state := ''complete'', kyc_verified := True\<rparr>)
         else if user_response \<in> set [''no'', ''n'', ''wrong'', ''incorrect''] then
           (reply MsgPhoneAgain ''ask_phone'',
            s\<lparr>verification_state := ''ask_phone'', customer := None\<rparr>)
         else (reply MsgYesNoPrompt ''confirm_identity'', s))
      else if state = ''not_found'' then
        (let user_response = py_strip (py_lower user_input) in
         if user_response \<in> set [''yes'', ''y''] then
           (reply MsgEnterPhone ''ask_phone'', s\<lparr>verification_state := ''ask_phone''\<rparr>)
         else (reply MsgVisitBranch ''ended'', s\<lparr>verification_state := ''ended''\<rparr>))
      else (empty_response, s))"

section \<open>Underwriting agent\<close>

text \<open>\<open>session.get("customer", {})\<close> and the \<open>get\<close> of each field, with default 0.\<close>

definition get_credit_score :: "session \<Rightarrow> int" where
  "get_credit_score s = (case customer s of None \<Rightarrow> 0 | Some c \<Rightarrow> credit_score c)"

definition get_preapproved_limit :: "session \<Rightarrow> rat" where
  "get_preapproved_limit s = (case customer s of None \<Rightarrow> 0 | Some c \<Rightarrow> preapproved_limit c)"

definition get_salary :: "session \<Rightarrow> rat" where
  "get_salary s = (case customer s of None \<Rightarrow> 0 | Some c \<Rightarrow> salary c)"

definition verdict :: "string \<Rightarrow> string \<Rightarrow> msg \<Rightarrow> string \<Rightarrow> worker_response" where
  "verdict d r m st =
     empty_response\<lparr>decision := Some d, reason := Some r, resp_message := Some m,
                    next_state := Some st\<rparr>"

definition underwriting_process :: "session \<Rightarrow> (py_error + worker_response) \<times> session" where
  "underwriting_process s =
     (let amount = get_loan_amount s;
          tenure = get_loan_tenure s;
          rate = get_interest_rate s;
          score = get_credit_score s;
          limit = get_preapproved_limit s
      in case calculate_emi amount rate tenure of
           Inl e \<Rightarrow> (Inl e, s)
         | Inr emi \<Rightarrow>
             (let s1 = s\<lparr>calculated_emi := Some emi\<rparr> in
              if score < 700 then
                (Inr (verdict ''rejected'' ''low_credit_score'' (MsgLowScore score) ''rejected''),
                 s1\<lparr>underwriting_state := ''rejected'', loan_status := Some ''rejected''\<rparr>)
              else if fle amount (Fin limit) then
                (Inr ((verdict ''approved'' ''within_preapproved_limit''
                         (MsgApprovedWithinLimit amount tenure rate emi limit) ''approved'')
                       \<lparr>proceed_to_sanction := True\<rparr>),
                 s1\<lparr>underwriting_state := ''approved'', loan_status := Some ''approved'',
                    approved_amount := Some amount\<rparr>)
              else if fle amount (Fin (2 * limit)) then
                (Inr ((verdict ''needs_salary_proof'' ''exceeds_preapproved_needs_verification''
                         (MsgNeedsSalarySlip amount limit) ''awaiting_salary_slip'')
                       \<lparr>resp_show_upload := True\<rparr>),
                 s1\<lparr>underwriting_state := ''awaiting_salary_slip'',
                    loan_status := Some ''pending_verification''\<rparr>)
              else
                (Inr (verdict ''rejected'' ''exceeds_maximum_limit''
                        (MsgExceedsMaximum amount (2 * limit)) ''rejected''),
                 s1\<lparr>underwriting_state := ''rejected'', loan_status := Some ''rejected''\<rparr>)))"

text \<open>
  The ratio of the payment to the salary, which the source computes for its messages
  only, behind the guard \<open>salary > 0\<close>.
\<close>

definition emi_to_salary_ratio :: "pyfloat \<Rightarrow> rat \<Rightarrow> py_error + pyfloat" where
  "emi_to_salary_ratio emi sal =
     (if 0 < sal then (case fdiv emi sal of Inl e \<Rightarrow> Inl e | Inr q \<Rightarrow> Inr (fmul q 100))
      else Inr (Fin 100))"

definition process_salary_verification :: "session \<Rightarrow> (py_error + worker_response) \<times> session" where
  "process_salary_verification s =
     (let amount = get_loan_amount s;
          tenure = get_loan_tenure s;
          rate = get_interest_rate s;
          sal = get_salary s
      in case calculate_emi amount rate tenure of
           Inl e \<Rightarrow> (Inl e, s)
         | Inr emi \<Rightarrow>
             (case emi_to_salary_ratio emi sal of
                Inl e \<Rightarrow> (Inl e, s)
              | Inr ratio \<Rightarrow>
                  if fle emi (Fin (1 / 2 * sal)) then
                    (Inr ((verdict ''approved'' ''salary_verified''
                             (MsgApprovedSalary amount tenure rate emi ratio) ''approved'')
                           \<lparr>proceed_to_sanction := True\<rparr>),
                     s\<lparr>underwriting_state := ''approved'', loan_status := Some ''approved'',
                       approved_amount := Some amount\<rparr>)
                  else
                    (let max_emi = 1 / 2 * sal in
                     case calculate_max_loan_for_emi (Fin max_emi) rate tenure of
                       Inl e \<Rightarrow> (Inl e, s)
                     | Inr max_loan \<Rightarrow>
                         (Inr (verdict ''rejected'' ''high_emi_ratio''
                                 (MsgHighEmi emi sal ratio max_loan) ''rejected''),
                          s\<lparr>underwriting_state := ''rejected'',
                            loan_status := Some ''rejected''\<rparr>))))"

section \<open>Document issuance\<close>

text \<open>
  \<open>generate_sanction_letter\<close> reads the session, builds the PDF and only then writes
  the file name into the session (the key for the file's path, which nothing reads, is
  left out). Building the PDF is the parameter \<open>issue\<close>; when it fails the exception
  leaves the function before the session is written.
\<close>

definition generate_sanction_letter :: "env \<Rightarrow> session \<Rightarrow> (py_error + response) \<times> session" where
  "generate_sanction_letter e s =
     (let cid = (case customer s of None \<Rightarrow> [] | Some c \<Rightarrow> cust_id c);
          amount = (case approved_amount s of None \<Rightarrow> get_loan_amount s | Some a \<Rightarrow> a);
          emi = (case calculated_emi s of None \<Rightarrow> Fin 0 | Some x \<Rightarrow> x)
      in case issue e s of
           None \<Rightarrow> (Inl IssuanceError, s)
         | Some filename \<Rightarrow>
             (Inr \<lparr>message = [MsgSanctionLetter cid amount emi], show_upload = False,
                   show_download = True, download_file = Some filename,
                   session_ended = False\<rparr>,
              s\<lparr>sanction_letter_filename := Some filename\<rparr>))"

section \<open>Master agent\<close>

definition get_initial_state :: session where
  "get_initial_state =
     \<lparr>current_agent = ''greeting'', conversation_stage = ''start'',
      sales_state = ''ask_amount'', verification_state = ''ask_phone'',
      underwriting_state = ''pending'', loan_status = None, kyc_verified = False,
      loan_amount = None, loan_tenure = None, interest_rate = None, estimated_emi = None,
      calculated_emi = None, customer = None, customer_id = None, offer = None,
      approved_amount = None, sanction_letter_filename = None,
      salary_slip_uploaded = False, salary_slip_path = None\<rparr>"

text \<open>
  The block that \<open>process_message\<close> and \<open>process_salary_upload\<close> both run after an
  approval: move to the stage \<open>sanction\<close>, call the document issuance, and move to
  \<open>completed\<close> when it returns.
\<close>

definition sanction_block :: "env \<Rightarrow> session \<Rightarrow> response \<Rightarrow> (py_error + response) \<times> session" where
  "sanction_block e s r =
     (let s1 = s\<lparr>current_agent := ''sanction'', conversation_stage := ''generating_sanction''\<rparr>
      in case generate_sanction_letter e s1 of
           (Inl err, s2) \<Rightarrow> (Inl err, s2)
         | (Inr sanc, s2) \<Rightarrow>
             (Inr (r\<lparr>message := message r @ message sanc,
                     show_download := show_download sanc,
                     download_file := download_file sanc\<rparr>),
              s2\<lparr>current_agent := ''completed''\<rparr>))"

definition process_message :: "env \<Rightarrow> session \<Rightarrow> string \<Rightarrow> (py_error + response) \<times> session" where
  "process_message e s user_input =
     (let agent = current_agent s in
      if agent = ''greeting'' then
        (Inr (initial_response\<lparr>message := [MsgSalesInitial]\<rparr>),
         s\<lparr>current_agent := ''sales'', conversation_stage := ''collecting_loan_details''\<rparr>)
      else if agent = ''sales'' then
        (case sales_process s user_input of
           (Inl err, s1) \<Rightarrow> (Inl err, s1)
         | (Inr sr, s1) \<Rightarrow>
             (let r1 = initial_response\<lparr>message := msg_of sr\<rparr> in
              if proceed_to_verification sr then
                (Inr (r1\<lparr>message := message r1 @ [MsgVerificationInitial]\<rparr>),
                 s1\<lparr>current_agent := ''verification'', conversation_stage := ''verification''\<rparr>)
              else if next_state sr = Some ''cancelled'' then
                (Inr (r1\<lparr>session_ended := True\<rparr>), s1\<lparr>current_agent := ''ended''\<rparr>)
              else (Inr r1, s1)))
      else if agent = ''verification'' then
        (case verification_process e s user_input of
           (vr, s1) \<Rightarrow>
             (let r1 = initial_response\<lparr>message := msg_of vr\<rparr> in
              if proceed_to_underwriting vr then
                (case underwriting_process
                        (s1\<lparr>current_agent := ''underwriting'',
                            conversation_stage := ''underwriting''\<rparr>) of
                   (Inl err, s3) \<Rightarrow> (Inl err, s3)
                 | (Inr ur, s3) \<Rightarrow>
                     (let r2 = r1\<lparr>message := message r1 @ msg_of ur,
                                   show_upload := resp_show_upload ur\<rparr> in
                      if proceed_to_sanction ur then sanction_block e s3 r2
                      else if decision ur = Some ''rejected'' then
                        (Inr (r2\<lparr>session_ended := True\<rparr>), s3\<lparr>current_agent := ''ended''\<rparr>)
                      else (Inr r2, s3)))
              else if next_state vr = Some ''ended'' then
                (Inr (r1\<lparr>session_ended := True\<rparr>), s1\<lparr>current_agent := ''ended''\<rparr>)
              else (Inr r1, s1)))
      else if agent = ''underwriting'' then
        (if underwriting_state s = ''awaiting_salary_slip'' then
           (Inr (initial_response\<lparr>message := [MsgUploadReminder], show_upload := True\<rparr>), s)
         else (Inr (initial_response\<lparr>message := [MsgBeingProcessed]\<rparr>), s))
      else if agent = ''completed'' then
        (Inr (initial_response\<lparr>message := [MsgCompleted], show_download := True,
                               download_file := sanction_letter_filename s\<rparr>), s)
      else if agent = ''ended'' then
        (Inr (initial_response\<lparr>message := [MsgEnded], session_ended := True\<rparr>), s)
      else (Inr (initial_response\<lparr>message := [MsgWentWrong]\<rparr>), s))"

definition process_salary_upload :: "env \<Rightarrow> session \<Rightarrow> (py_error + response) \<times> session" where
  "process_salary_upload e s =
     (case process_salary_verification s of
        (Inl err, s1) \<Rightarrow> (Inl err, s1)
      | (Inr ur, s1) \<Rightarrow>
          (let r1 = initial_response\<lparr>message := msg_of ur\<rparr> in
           if proceed_to_sanction ur then sanction_block e s1 r1
           else if decision ur = Some ''rejected'' then
             (Inr (r1\<lparr>session_ended := True\<rparr>), s1\<lparr>current_agent := ''ended''\<rparr>)
           else (Inr r1, s1)))"

section \<open>The two endpoints\<close>

text \<open>
  \<open>chat\<close> passes a message to \<open>process_message\<close>. \<open>upload_salary\<close> stores the uploaded
  file, records it in the session and calls \<open>process_salary_upload\<close>; it looks the
  session up by its identifier and checks nothing else about it. The session object
  lives in the registry, so what a turn wrote stays when the turn raises.
\<close>

datatype event = Chat string | UploadSalary string

definition handle :: "env \<Rightarrow> event \<Rightarrow> session \<Rightarrow> (py_error + response) \<times> session" where
  "handle e ev s =
     (case ev of
        Chat m \<Rightarrow> process_message e s m
      | UploadSalary f \<Rightarrow>
          process_salary_upload e (s\<lparr>salary_slip_uploaded := True, salary_slip_path := Some f\<rparr>))"

definition run :: "env \<Rightarrow> event list \<Rightarrow> session \<Rightarrow> session" where
  "run e evs s = foldl (\<lambda>t ev. snd (handle e ev t)) s evs"

section \<open>Sessions reachable under the upload contract\<close>

text \<open>
  The specification delivers the upload event only while the session waits for the
  salary slip. \<open>run_guarded\<close> runs the two endpoints under that contract: an upload
  event in any other state is not delivered. The environment may differ from turn to
  turn.
\<close>

definition guarded_step :: "env \<Rightarrow> event \<Rightarrow> session \<Rightarrow> session" where
  "guarded_step e ev s =
     (case ev of
        Chat m \<Rightarrow> snd (handle e ev s)
      | UploadSalary f \<Rightarrow>
          if current_agent s = ''underwriting''
             \<and> underwriting_state s = ''awaiting_salary_slip''
          then snd (handle e ev s)
          else s)"

definition run_guarded :: "(env \<times> event) list \<Rightarrow> session \<Rightarrow> session" where
  "run_guarded evs s = foldl (\<lambda>t (e, ev). guarded_step e ev t) s evs"

definition decision_consistent :: "session \<Rightarrow> bool" where
  "decision_consistent s =
     ((approved_amount s \<noteq> None) = (loan_status s = Some ''approved'')
      \<and> (current_agent s \<in> {''greeting'', ''sales'', ''verification''}
           \<longrightarrow> loan_status s = None \<and> underwriting_state s = ''pending'')
      \<and> (current_agent s = ''underwriting'' \<and> underwriting_state s = ''awaiting_salary_slip''
           \<longrightarrow> loan_status s = Some ''pending_verification''))"

section \<open>The rule table of the specification\<close>

text \<open>
  The four rules of the first-pass evaluator as the specification lists them, in
  priority order, with the decision and reason codes of the source. The source calls
  the specification's outcome pending-income-proof \<open>needs_salary_proof\<close>.
\<close>

definition spec_rule_outcome :: "int \<Rightarrow> pyfloat \<Rightarrow> rat \<Rightarrow> string \<times> string" where
  "spec_rule_outcome score amount limit =
     (if score < 700 then (''rejected'', ''low_credit_score'')
      else if fle amount (Fin limit) then (''approved'', ''within_preapproved_limit'')
      else if fle amount (Fin (2 * limit))
        then (''needs_salary_proof'', ''exceeds_preapproved_needs_verification'')
      else (''rejected'', ''exceeds_maximum_limit''))"

section \<open>Sample data\<close>

text \<open>
  Two customer records and one offer of the kind the lookup service holds, an
  environment whose document issuance succeeds, and one whose issuance fails.
\<close>

definition demo_customer :: customer where
  "demo_customer =
     \<lparr>cust_id = ''C001'', name = ''Asha Rao'', city = ''Pune'', phone = ''9876543210'',
      credit_score = 750, preapproved_limit = 500000, salary = 20000\<rparr>"

definition demo_customer2 :: customer where
  "demo_customer2 =
     \<lparr>cust_id = ''C002'', name = ''Ravi Iyer'', city = ''Chennai'', phone = ''9123456780'',
      credit_score = 720, preapproved_limit = 200000, salary = 0\<rparr>"

definition demo_offer :: offer where
  "demo_offer = \<lparr>offer_customer_id = ''C001'', offer_interest_rate = 9\<rparr>"

definition demo_env :: env where
  "demo_env =
     \<lparr>customers = [demo_customer, demo_customer2], offers = [demo_offer],
      issue = (\<lambda>s. Some ''sanction_letter.pdf'')\<rparr>"

definition failing_env :: env where
  "failing_env = demo_env\<lparr>issue := (\<lambda>s. None)\<rparr>"

text \<open>
  Sessions at the point where underwriting runs: one whose customer has the credit
  score 650, the same with an offer rate of -2400 per cent over 12 months, for which
  \<open>(1 + r) ** n\<close> is 1, and one whose customer declares the salary 0.
\<close>

definition low_score_session :: session where
  "low_score_session =
     get_initial_state\<lparr>loan_amount := Some (Fin 300000), loan_tenure := Some 24,
                        customer := Some (demo_customer\<lparr>credit_score := 650\<rparr>)\<rparr>"

definition degenerate_rate_session :: session where
  "degenerate_rate_session =
     low_score_session\<lparr>loan_tenure := Some 12, interest_rate := Some (- 2400)\<rparr>"

definition zero_salary_session :: session where
  "zero_salary_session =
     get_initial_state\<lparr>loan_amount := Some (Fin 300000), loan_tenure := Some 24,
                        customer := Some demo_customer2\<rparr>"

text \<open>
  A conversation that ends in an approval within the pre-approved limit: 300000 over
  24 months for the first customer, whose offer sets the rate to 9.
\<close>

definition approval_trace :: "event list" where
  "approval_trace =
     [Chat ''hi'', Chat ''300000'', Chat ''24'', Chat ''yes'', Chat ''9876543210'',
      Chat ''yes'']"

text \<open>The session of that conversation before its last message.\<close>

definition confirm_session :: session where
  "confirm_session =
     get_initial_state
       \<lparr>current_agent := ''verification'', conversation_stage := ''verification'',
        sales_state := ''complete'', verification_state := ''confirm_identity'',
        loan_amount := Some (Fin 300000), loan_tenure := Some 24,
        interest_rate := Some 9, estimated_emi := Some (Fin (1391281 / 100)),
        customer := Some demo_customer, customer_id := Some ''C001'',
        offer := Some demo_offer\<rparr>"

text \<open>
  The session after the last message of that conversation: when the document issuance
  fails, and when it succeeds.
\<close>

definition failed_session :: session where
  "failed_session =
     confirm_session
       \<lparr>verification_state := ''complete'', kyc_verified := True,
        calculated_emi := Some (Fin (685271 / 50)), underwriting_state := ''approved'',
        loan_status := Some ''approved'', approved_amount := Some (Fin 300000),
        current_agent := ''sanction'', conversation_stage := ''generating_sanction''\<rparr>"

definition completed_session :: session where
  "completed_session =
     failed_session
       \<lparr>sanction_letter_filename := Some ''sanction_letter.pdf'',
        current_agent := ''completed''\<rparr>"

text \<open>The verification agent run on a list of inputs, one turn after the other.\<close>

definition verification_run :: "env \<Rightarrow> string list \<Rightarrow> session \<Rightarrow> session" where
  "verification_run e inps s = foldl (\<lambda>t i. snd (verification_process e t i)) s inps"

section \<open>The amortisation formula\<close>

text \<open>
  The payment formula as the specification writes it, on exact numbers and before any
  rounding, and the geometric sum that its denominator hides.
\<close>

definition amortized :: "rat \<Rightarrow> rat \<Rightarrow> nat \<Rightarrow> rat" where
  "amortized P r n = P * r * (1 + r) ^ n / ((1 + r) ^ n - 1)"

definition geo :: "rat \<Rightarrow> nat \<Rightarrow> rat" where
  "geo x n = (\<Sum>i<n. x ^ i)"

section \<open>Rounding\<close>

lemma floor_rat_numeral [simp]:
  "\<lfloor>numeral a / numeral b :: rat\<rfloor> = numeral a div numeral b"
  by (metis floor_divide_of_int_eq of_int_numeral)

lemma round_half_even_near: "\<bar>of_int (round_half_even y) - y\<bar> \<le> 1 / 2"
proof -
  have "of_int \<lfloor>y\<rfloor> \<le> y" "y < of_int \<lfloor>y\<rfloor> + 1" by linarith+
  then show ?thesis
    by (auto simp: round_half_even_def Let_def)
qed

lemma round_half_even_mono:
  assumes "y1 \<le> y2"
  shows "round_half_even y1 \<le> round_half_even y2"
proof (cases "\<lfloor>y1\<rfloor> = \<lfloor>y2\<rfloor>")
  case True
  with assms show ?thesis
    by (auto simp: round_half_even_def Let_def)
next
  case False
  with assms have lt: "\<lfloor>y1\<rfloor> + 1 \<le> \<lfloor>y2\<rfloor>"
    using floor_mono [OF assms] by linarith
  have "round_half_even y1 \<le> \<lfloor>y1\<rfloor> + 1"
    by (simp add: round_half_even_def Let_def)
  moreover have "\<lfloor>y2\<rfloor> \<le> round_half_even y2"
    by (simp add: round_half_even_def Let_def)
  ultimately show ?thesis using lt by linarith
qed

lemma round2_near: "\<bar>of_int (round_half_even (y * 100)) / 100 - y\<bar> \<le> 1 / 200"
  using round_half_even_near [of "y * 100"] by (simp add: abs_le_iff field_simps)

section \<open>Properties of the formula\<close>

lemma geo_diff: "x ^ n - 1 = (x - 1) * geo x n"
  unfolding geo_def by (rule power_diff_1_eq)

lemma geo_pos: "0 < x \<Longrightarrow> 0 < n \<Longrightarrow> 0 < geo x n"
  unfolding geo_def by (rule sum_pos) auto

lemma geo_le:
  assumes "1 \<le> x"
  shows "geo x n \<le> of_nat n * x ^ n"
proof -
  have "(\<Sum>i<n. x ^ i) \<le> (\<Sum>i<n. x ^ n)"
    by (rule sum_mono) (use assms in \<open>auto intro: power_increasing\<close>)
  then show ?thesis by (simp add: geo_def)
qed

lemma geo_cross:
  assumes "1 \<le> x" "x \<le> y"
  shows "x ^ n * geo y n \<le> y ^ n * geo x n"
proof -
  have "(\<Sum>i<n. x ^ n * y ^ i) \<le> (\<Sum>i<n. y ^ n * x ^ i)"
  proof (rule sum_mono)
    fix i assume "i \<in> {..<n}"
    then have i: "i \<le> n" by simp
    have x0: "0 \<le> x" and y0: "0 \<le> y" using assms by linarith+
    have "x ^ (n - i) \<le> y ^ (n - i)"
      using assms x0 by (intro power_mono) auto
    then have "x ^ (n - i) * (x ^ i * y ^ i) \<le> y ^ (n - i) * (x ^ i * y ^ i)"
      using x0 y0 by (intro mult_right_mono) auto
    moreover have "x ^ n = x ^ (n - i) * x ^ i" "y ^ n = y ^ (n - i) * y ^ i"
      using i by (simp_all flip: power_add)
    ultimately show "x ^ n * y ^ i \<le> y ^ n * x ^ i"
      by (simp add: mult_ac)
  qed
  then show ?thesis by (simp add: geo_def sum_distrib_left)
qed

lemma amortized_geo:
  assumes "0 < r" "0 < n"
  shows "amortized P r n = P * (1 + r) ^ n / geo (1 + r) n"
proof -
  have g: "0 < geo (1 + r) n" using assms by (intro geo_pos) auto
  have "(1 + r) ^ n - 1 = r * geo (1 + r) n"
    using geo_diff [of "1 + r" n] by simp
  then show ?thesis
    using assms g by (simp add: amortized_def)
qed

lemma amortized_covers:
  assumes "0 \<le> P" "0 < r" "0 < n"
  shows "P \<le> amortized P r n * of_nat n"
proof -
  have g: "0 < geo (1 + r) n" using assms by (intro geo_pos) auto
  have "geo (1 + r) n \<le> of_nat n * (1 + r) ^ n"
    using assms by (intro geo_le) auto
  then have "P * geo (1 + r) n \<le> P * (of_nat n * (1 + r) ^ n)"
    using assms by (intro mult_left_mono) auto
  then have "P \<le> P * (of_nat n * (1 + r) ^ n) / geo (1 + r) n"
    using g by (simp add: pos_le_divide_eq)
  then show ?thesis
    using assms by (simp add: amortized_geo mult_ac)
qed

lemma geo_shift_le:
  assumes "1 \<le> x"
  shows "x * geo x n \<le> of_nat n * x ^ n"
proof -
  have "(\<Sum>i<n. x * x ^ i) \<le> (\<Sum>i<n. x ^ n)"
  proof (rule sum_mono)
    fix i assume "i \<in> {..<n}"
    then have "Suc i \<le> n" by simp
    then have "x ^ Suc i \<le> x ^ n"
      using assms by (intro power_increasing) auto
    then show "x * x ^ i \<le> x ^ n" by simp
  qed
  then show ?thesis by (simp add: geo_def sum_distrib_left)
qed

lemma amortized_interest:
  assumes "0 \<le> P" "0 < r" "0 < n"
  shows "P * (1 + r) \<le> amortized P r n * of_nat n"
proof -
  have g: "0 < geo (1 + r) n" using assms by (intro geo_pos) auto
  have "(1 + r) * geo (1 + r) n \<le> of_nat n * (1 + r) ^ n"
    using assms by (intro geo_shift_le) auto
  then have "P * ((1 + r) * geo (1 + r) n) \<le> P * (of_nat n * (1 + r) ^ n)"
    using assms by (intro mult_left_mono) auto
  then have "P * (1 + r) \<le> P * (of_nat n * (1 + r) ^ n) / geo (1 + r) n"
    using g by (simp add: pos_le_divide_eq mult_ac)
  then show ?thesis
    using assms by (simp add: amortized_geo mult_ac)
qed

lemma amortized_mono:
  assumes "0 \<le> P" "0 < r1" "r1 \<le> r2" "0 < n"
  shows "amortized P r1 n \<le> amortized P r2 n"
proof -
  have g1: "0 < geo (1 + r1) n" and g2: "0 < geo (1 + r2) n"
    using assms by (auto intro!: geo_pos)
  have "(1 + r1) ^ n * geo (1 + r2) n \<le> (1 + r2) ^ n * geo (1 + r1) n"
    using assms by (intro geo_cross) auto
  then have "(1 + r1) ^ n / geo (1 + r1) n \<le> (1 + r2) ^ n / geo (1 + r2) n"
    using g1 g2 by (simp add: divide_simps mult_ac)
  then have "P * ((1 + r1) ^ n / geo (1 + r1) n) \<le> P * ((1 + r2) ^ n / geo (1 + r2) n)"
    using assms by (intro mult_left_mono) auto
  then show ?thesis
    using assms by (simp add: amortized_geo)
qed

lemma power_minus_one_nonzero:
  assumes "0 < r" "0 < n"
  shows "(1 + r) ^ n - 1 \<noteq> (0::rat)"
proof -
  have "0 < geo (1 + r) n" using assms by (intro geo_pos) auto
  then show ?thesis
    using assms unfolding geo_diff [of "1 + r" n] by simp
qed

lemma calculate_emi_fin:
  assumes "0 < rate" "0 < n"
  shows "calculate_emi (Fin P) rate n
         = Inr (Fin (of_int (round_half_even (amortized P (rate / 1200) (nat n) * 100)) / 100))"
proof -
  have "(1 + rate / 1200) ^ nat n - 1 \<noteq> 0"
    using assms by (intro power_minus_one_nonzero) auto
  then show ?thesis
    using assms by (simp add: calculate_emi_def py_pow_def amortized_def Let_def)
qed



section \<open>Claims about the financial calculator\<close>

text \<open>
  C4. The payment is \<open>principal / termMonths\<close> at rate 0 and the amortisation formula
  otherwise, and in every case it is rounded to 2 decimal places. The branch for a
  non-zero rate rounds (\<open>calculate_emi_fin\<close>); the branch for rate 0 returns the
  quotient as it is. For a principal of 10000 over 12 months at rate 0 the result is
  2500/3, which rounded to 2 decimal places is 833.33.
\<close>

theorem zero_rate_payment_not_rounded:
  "calculate_emi (Fin 10000) 0 12 = Inr (Fin (2500 / 3))
   \<and> py_round2 (Fin (2500 / 3)) = Fin (83333 / 100)
   \<and> Fin (2500 / 3) \<noteq> Fin (83333 / 100)"
  by (simp add: calculate_emi_def round_half_even_def Let_def)



text \<open>
  C9. As stated, the payments of a loan add up to at least the principal for every
  principal, rate and term above 0. Rounding the payment down breaks this: 10000 over
  12 months at 0.0001 per cent a year has the payment 833.33, and 12 payments make
  9999.96.
\<close>

theorem payment_total_below_principal:
  "calculate_emi (Fin 10000) (1 / 10000) 12 = Inr (Fin (83333 / 100))
   \<and> 83333 / 100 * of_int 12 < (10000::rat)"
  by (simp add: calculate_emi_def py_pow_def round_half_even_def Let_def power_divide)

text \<open>
  C9, amended. For a principal between 10000 and 5000000, a term between 12 and 72
  months and a rate between 0.5 and 40 per cent a year, the payments add up to at least
  the principal, and raising the rate within that range never lowers the payment by as
  much as two cents. (On exact numbers the payment does not decrease at all; the doubles
  of the source can put two rates that are a rounding error apart one cent out of
  order.)
\<close>

theorem payment_covers_principal_in_domain:
  assumes "10000 \<le> P" "P \<le> 5000000" "1 / 2 \<le> rate" "rate \<le> rate'" "rate' \<le> 40"
    "12 \<le> n" "n \<le> 72"
  shows "\<exists>e e'. calculate_emi (Fin P) rate n = Inr (Fin e)
               \<and> calculate_emi (Fin P) rate' n = Inr (Fin e')
               \<and> P \<le> e * of_int n
               \<and> e < e' + 1 / 50"
proof -
  let ?N = "nat n"
  let ?r = "rate / 1200"
  let ?E = "amortized P ?r ?N"
  let ?E' = "amortized P (rate' / 1200) ?N"
  define e where "e = of_int (round_half_even (?E * 100)) / (100::rat)"
  define e' where "e' = of_int (round_half_even (?E' * 100)) / (100::rat)"
  have rate: "0 < rate" "0 < rate'" and n: "0 < n" and P: "0 \<le> P" using assms by simp_all
  have N: "0 < ?N" and nN: "(of_nat ?N :: rat) = of_int n" using n by simp_all
  have 1: "calculate_emi (Fin P) rate n = Inr (Fin e)"
    using rate n by (simp add: calculate_emi_fin e_def)
  have 2: "calculate_emi (Fin P) rate' n = Inr (Fin e')"
    using rate n by (simp add: calculate_emi_fin e'_def)
  have "P * (1 + ?r) \<le> ?E * of_int n"
    using amortized_interest [of P ?r ?N] P rate N nN by simp
  moreover have "10000 * (1 / 2400) \<le> P * ?r"
    using assms by (intro mult_mono) auto
  ultimately have total: "P + 4 \<le> ?E * of_int n"
    by (simp add: algebra_simps)
  have near: "\<bar>e - ?E\<bar> \<le> 1 / 200"
    unfolding e_def by (rule round2_near)
  then have "?E - 1 / 200 \<le> e" by linarith
  then have "(?E - 1 / 200) * of_int n \<le> e * of_int n"
    using n by (intro mult_right_mono) auto
  then have "?E * of_int n - of_int n / 200 \<le> e * of_int n"
    by (simp add: algebra_simps)
  moreover have "(of_int n :: rat) / 200 \<le> 4"
    using assms by simp
  ultimately have 3: "P \<le> e * of_int n"
    using total by linarith
  have "?E \<le> ?E'"
    using assms P rate N by (intro amortized_mono) auto
  then have "round_half_even (?E * 100) \<le> round_half_even (?E' * 100)"
    by (intro round_half_even_mono) simp
  then have "e \<le> e'"
    by (simp add: e_def e'_def divide_right_mono)
  then have 4: "e < e' + 1 / 50" by simp
  from 1 2 3 4 show ?thesis by blast
qed

theorem payment_covers_principal_in_domain_witness:
  "(10000::rat) \<le> 900000 \<and> (900000::rat) \<le> 5000000 \<and> (1::rat) / 2 \<le> 9
   \<and> (9::rat) \<le> 21 / 2 \<and> (21::rat) / 2 \<le> 40 \<and> (12::int) \<le> 66 \<and> (66::int) \<le> 72
   \<and> (\<exists>e e'. calculate_emi (Fin 900000) 9 66 = Inr (Fin e)
             \<and> calculate_emi (Fin 900000) (21 / 2) 66 = Inr (Fin e')
             \<and> 900000 \<le> e * of_int 66
             \<and> e < e' + 1 / 50)"
  using payment_covers_principal_in_domain [of 900000 9 "21 / 2" 66] by simp

section \<open>Evaluating the string functions\<close>

lemmas string_defs = py_strip_def is_space_def py_lower_def lower_char_def remove_char_def
  split_sign_def is_digit_def py_isdigit_def digit_val_def digits_val_def is_numchar_def

section \<open>Claims about the intake machine\<close>

text \<open>
  C3. In \<open>ask_amount\<close> the machine should accept only an amount between 10000 and
  5000000, and store an amount in that range. The input \<open>nan\<close> is a float literal for
  Python; both range tests compare with \<open>\<le>\<close> and are false on NaN, so the machine
  stores NaN as the loan amount and moves to \<open>ask_tenure\<close>.
\<close>

theorem nan_amount_accepted:
  "sales_process get_initial_state ''nan''
   = (Inr (reply (MsgAmountCaptured NaN) ''ask_tenure''),
      get_initial_state\<lparr>loan_amount := Some NaN, sales_state := ''ask_tenure''\<rparr>)"
  by (simp add: sales_process_def get_initial_state_def py_float_def string_defs fgt_def)

text \<open>
  What does hold: an accepted amount is NaN or lies in the range, and an accepted
  tenure lies between 12 and 72.
\<close>

lemma amount_accepted_range:
  assumes "sales_state s = ''ask_amount''" "sales_process s inp = (r, s')"
    "sales_state s' = ''ask_tenure''"
  shows "loan_amount s' = Some NaN
         \<or> (\<exists>x. loan_amount s' = Some (Fin x) \<and> 10000 \<le> x \<and> x \<le> 5000000)"
proof -
  let ?p = "py_float (py_strip (remove_rupee (remove_char CHR '','' inp)))"
  show ?thesis
  proof (cases ?p)
    case (Inl e)
    with assms show ?thesis
      by (auto simp: sales_process_def Let_def split: if_splits)
  next
    case (Inr amount)
    with assms show ?thesis
      by (cases amount) (auto simp: sales_process_def Let_def fgt_def split: if_splits)
  qed
qed

lemma tenure_accepted_range:
  assumes "sales_state s = ''ask_tenure''" "sales_process s inp = (r, s')"
    "sales_state s' = ''confirm''"
  shows "\<exists>t. loan_tenure s' = Some t \<and> 12 \<le> t \<and> t \<le> 72"
  using assms
  by (auto simp: sales_process_def Let_def split: if_splits sum.splits)

section \<open>Claims about the underwriting agent\<close>

text \<open>
  C1. As stated, the first-pass evaluator returns one of the four outcomes for every
  credit score, amount, limit and salary. The source computes the payment before it
  tries the first rule, so where the payment computation raises no rule is reached, not
  even the rule for a low credit score: at the offer rate -2400 over 12 months the
  power \<open>(1 + r) ** n\<close> is exactly 1 and the division raises. (In the source the same
  happens for a positive rate so small that \<open>1 + r\<close> rounds to 1.)
\<close>

theorem rule_evaluator_raises:
  "get_credit_score degenerate_rate_session < 700
   \<and> underwriting_process degenerate_rate_session
     = (Inl ZeroDivisionError, degenerate_rate_session)"
  by (simp add: degenerate_rate_session_def low_score_session_def get_initial_state_def
      demo_customer_def underwriting_process_def get_credit_score_def get_loan_amount_def
      get_loan_tenure_def get_interest_rate_def get_preapproved_limit_def calculate_emi_def
      py_pow_def Let_def)

text \<open>
  C1, amended. Whenever the payment computation for the session's amount, rate and
  tenure returns, the first-pass evaluator returns for every credit score, amount,
  pre-approved limit and salary, and its decision and reason are those of the first
  rule of the specification's table that matches. In particular a credit score below
  700 is then rejected with \<open>low_credit_score\<close> whatever the amount and the limit are.
\<close>

theorem rule_evaluator_decides:
  assumes "calculate_emi (get_loan_amount s) (get_interest_rate s) (get_loan_tenure s)
           = Inr emi"
  shows "\<exists>r s'. underwriting_process s = (Inr r, s')
           \<and> (decision r, reason r)
             = map_prod Some Some
                 (spec_rule_outcome (get_credit_score s) (get_loan_amount s)
                    (get_preapproved_limit s))
           \<and> (get_credit_score s < 700
                \<longrightarrow> decision r = Some ''rejected'' \<and> reason r = Some ''low_credit_score'')"
  using assms
  by (simp add: underwriting_process_def Let_def spec_rule_outcome_def verdict_def
      empty_response_def)

theorem rule_evaluator_decides_witness:
  "calculate_emi (get_loan_amount low_score_session) (get_interest_rate low_score_session)
     (get_loan_tenure low_score_session) = Inr (Fin (1391281 / 100))
   \<and> get_credit_score low_score_session < 700
   \<and> (\<exists>r s'. underwriting_process low_score_session = (Inr r, s')
             \<and> decision r = Some ''rejected'' \<and> reason r = Some ''low_credit_score'')"
proof -
  have 1: "calculate_emi (get_loan_amount low_score_session)
             (get_interest_rate low_score_session) (get_loan_tenure low_score_session)
           = Inr (Fin (1391281 / 100))"
    by (simp add: get_loan_amount_def get_interest_rate_def get_loan_tenure_def
        low_score_session_def get_initial_state_def calculate_emi_def py_pow_def
        round_half_even_def Let_def power_divide)
  have 2: "get_credit_score low_score_session < 700"
    by (simp add: get_credit_score_def low_score_session_def demo_customer_def)
  show ?thesis
    using rule_evaluator_decides [OF 1] 1 2 by auto
qed

lemma max_loan_total:
  assumes "calculate_emi a rate n = Inr emi" "fgt emi (Fin 0)"
  shows "\<exists>m. calculate_max_loan_for_emi (Fin x) rate n = Inr m"
  using assms
  by (cases a)
     (auto simp: calculate_emi_def calculate_max_loan_for_emi_def Let_def fgt_def
           round_half_even_def split: if_splits sum.splits)

text \<open>
  C5. When the salary of the bound profile is 0 or less and the computed payment is
  positive, the income-verification variant raises nothing and rejects with
  \<open>high_emi_ratio\<close>; the ratio of payment to salary is not computed by a division but
  set to 100.
\<close>

theorem nonpositive_salary_rejected:
  assumes "get_salary s \<le> 0"
    and "calculate_emi (get_loan_amount s) (get_interest_rate s) (get_loan_tenure s) = Inr emi"
    and "fgt emi (Fin 0)"
  shows "\<exists>r m. process_salary_verification s
               = (Inr r, s\<lparr>underwriting_state := ''rejected'', loan_status := Some ''rejected''\<rparr>)
           \<and> decision r = Some ''rejected'' \<and> reason r = Some ''high_emi_ratio''
           \<and> resp_message r = Some (MsgHighEmi emi (get_salary s) (Fin 100) m)
           \<and> emi_to_salary_ratio emi (get_salary s) = Inr (Fin 100)"
proof -
  have ratio: "emi_to_salary_ratio emi (get_salary s) = Inr (Fin 100)"
    using assms(1) by (simp add: emi_to_salary_ratio_def)
  have no: "\<not> fle emi (Fin (1 / 2 * get_salary s))"
    using assms(1,3) by (cases emi) (auto simp: fgt_def)
  obtain m where "calculate_max_loan_for_emi (Fin (1 / 2 * get_salary s))
                    (get_interest_rate s) (get_loan_tenure s) = Inr m"
    using max_loan_total [OF assms(2,3)] by blast
  with ratio no assms(2) show ?thesis
    by (simp add: process_salary_verification_def Let_def verdict_def empty_response_def)
qed

theorem nonpositive_salary_rejected_witness:
  "get_salary zero_salary_session \<le> 0
   \<and> fgt (Fin (1391281 / 100)) (Fin 0)
   \<and> (\<exists>r. process_salary_verification zero_salary_session
             = (Inr r, zero_salary_session\<lparr>underwriting_state := ''rejected'',
                                             loan_status := Some ''rejected''\<rparr>)
           \<and> decision r = Some ''rejected'' \<and> reason r = Some ''high_emi_ratio'')"
proof -
  have 1: "get_salary zero_salary_session \<le> 0"
    by (simp add: get_salary_def zero_salary_session_def demo_customer2_def)
  have 2: "calculate_emi (get_loan_amount zero_salary_session)
             (get_interest_rate zero_salary_session) (get_loan_tenure zero_salary_session)
           = Inr (Fin (1391281 / 100))"
    by (simp add: get_loan_amount_def get_interest_rate_def get_loan_tenure_def
        zero_salary_session_def get_initial_state_def calculate_emi_def py_pow_def
        round_half_even_def Let_def power_divide)
  have 3: "fgt (Fin (1391281 / 100)) (Fin 0)"
    by (simp add: fgt_def)
  show ?thesis
    using nonpositive_salary_rejected [OF 1 2 3] 1 3 by auto
qed

text \<open>
  An amount and a tenure within the bounds of the intake machine, with a rate between
  0.5 and 40 per cent a year, make the payment positive.
\<close>

lemma payment_positive_in_domain:
  assumes "10000 \<le> a" "a \<le> 5000000" "1 / 2 \<le> rate" "rate \<le> 40" "12 \<le> n" "n \<le> 72"
  shows "\<exists>e. calculate_emi (Fin a) rate n = Inr (Fin e) \<and> 0 < e"
proof -
  let ?E = "amortized a (rate / 1200) (nat n)"
  define e where "e = of_int (round_half_even (?E * 100)) / (100::rat)"
  have r: "0 < rate" and n0: "0 < n" and N: "0 < nat n" using assms by simp_all
  have nN: "(of_nat (nat n) :: rat) = of_int n" using n0 by simp
  have 1: "calculate_emi (Fin a) rate n = Inr (Fin e)"
    using r n0 by (simp add: calculate_emi_fin e_def)
  have "a \<le> ?E * of_int n"
    using amortized_covers [of a "rate / 1200" "nat n"] assms r N nN by simp
  then have "0 < ?E * of_int n" using assms by linarith
  then have E0: "0 < ?E" using n0 by (simp add: zero_less_mult_iff)
  have "?E * of_int n \<le> ?E * 72"
    using E0 assms by (intro mult_left_mono) auto
  with \<open>a \<le> ?E * of_int n\<close> assms have "1 \<le> ?E" by linarith
  moreover have "\<bar>e - ?E\<bar> \<le> 1 / 200" unfolding e_def by (rule round2_near)
  ultimately have "0 < e" by linarith
  with 1 show ?thesis by blast
qed

section \<open>Claims about the verification machine\<close>

text \<open>
  C7. On a negative answer in \<open>confirm_identity\<close> the bound profile should be cleared,
  with the bound identifier and the data derived from it. The source removes the key
  \<open>customer\<close> only: after the first customer is found and answers no, the session
  still holds that customer's identifier, offer and offer rate, and the rate stays in
  the session when a second customer without an offer is bound.
\<close>

theorem rejected_identity_keeps_offer:
  "verification_state (verification_run demo_env [''98765 43210'', ''No''] get_initial_state)
     = ''ask_phone''
   \<and> customer (verification_run demo_env [''98765 43210'', ''No''] get_initial_state) = None
   \<and> customer_id (verification_run demo_env [''98765 43210'', ''No''] get_initial_state)
     = Some ''C001''
   \<and> offer (verification_run demo_env [''98765 43210'', ''No''] get_initial_state)
     = Some demo_offer
   \<and> interest_rate (verification_run demo_env [''98765 43210'', ''No''] get_initial_state)
     = Some 9
   \<and> customer (verification_run demo_env [''98765 43210'', ''No'', ''9123456780'']
       get_initial_state) = Some demo_customer2
   \<and> interest_rate (verification_run demo_env [''98765 43210'', ''No'', ''9123456780'']
       get_initial_state) = Some 9"
  by (simp add: verification_run_def verification_process_def get_initial_state_def
      demo_env_def demo_customer_def demo_customer2_def demo_offer_def
      find_customer_by_phone_def find_offer_by_customer_id_def string_defs reply_def
      empty_response_def Let_def)

text \<open>What does hold: the key \<open>customer\<close> is removed and the machine returns to \<open>ask_phone\<close>.\<close>

lemma identity_rejected_clears_customer:
  assumes "verification_state s = ''confirm_identity''"
    and "py_strip (py_lower inp) \<in> set [''no'', ''n'', ''wrong'', ''incorrect'']"
  shows "verification_process e s inp
         = (reply MsgPhoneAgain ''ask_phone'',
            s\<lparr>verification_state := ''ask_phone'', customer := None\<rparr>)"
  using assms by (auto simp: verification_process_def Let_def)

section \<open>Claims about the master agent\<close>

text \<open>
  C10. In the stage \<open>greeting\<close> the turn does not depend on the input: for any two
  inputs the response and the session after the turn are the same, the response is
  the opening message of the intake stage with no flag set, and the session has moved
  to the intake stage.
\<close>

theorem greeting_input_independent:
  assumes "current_agent s = ''greeting''"
  shows "process_message e1 s a = process_message e2 s b
         \<and> process_message e1 s a
           = (Inr \<lparr>message = [MsgSalesInitial], show_upload = False, show_download = False,
                   download_file = None, session_ended = False\<rparr>,
              s\<lparr>current_agent := ''sales'',
                conversation_stage := ''collecting_loan_details''\<rparr>)"
  using assms by (simp add: process_message_def initial_response_def)

theorem greeting_input_independent_witness:
  "current_agent get_initial_state = ''greeting''
   \<and> process_message demo_env get_initial_state ''hello''
     = process_message failing_env get_initial_state ''300000''
   \<and> current_agent (snd (process_message demo_env get_initial_state ''hello'')) = ''sales''"
proof -
  have 1: "current_agent get_initial_state = ''greeting''"
    by (simp add: get_initial_state_def)
  note g = greeting_input_independent [OF 1, of demo_env "''hello''" failing_env "''300000''"]
  have "current_agent (snd (process_message demo_env get_initial_state ''hello'')) = ''sales''"
    by (simp add: conjunct2 [OF g])
  with g 1 show ?thesis by blast
qed

section \<open>Exceptions and what a call leaves unchanged\<close>








lemma underwriting_process_approved:
  assumes "underwriting_process s = (Inr ur, s')" "proceed_to_sanction ur"
  shows "\<exists>emi. s' = s\<lparr>calculated_emi := Some emi, underwriting_state := ''approved'',
                       loan_status := Some ''approved'',
                       approved_amount := Some (get_loan_amount s)\<rparr>"
  using assms
  by (auto simp: underwriting_process_def Let_def verdict_def empty_response_def
      split: if_splits sum.splits)


lemma process_salary_verification_approved:
  assumes "process_salary_verification s = (Inr ur, s')" "proceed_to_sanction ur"
  shows "\<exists>emi ratio.
           calculate_emi (get_loan_amount s) (get_interest_rate s) (get_loan_tenure s) = Inr emi
         \<and> emi_to_salary_ratio emi (get_salary s) = Inr ratio
         \<and> fle emi (Fin (1 / 2 * get_salary s))
         \<and> s' = s\<lparr>underwriting_state := ''approved'', loan_status := Some ''approved'',
                  approved_amount := Some (get_loan_amount s)\<rparr>"
proof (cases "calculate_emi (get_loan_amount s) (get_interest_rate s) (get_loan_tenure s)")
  case (Inl x)
  with assms show ?thesis
    by (simp add: process_salary_verification_def Let_def)
next
  case emi: (Inr emi)
  show ?thesis
  proof (cases "emi_to_salary_ratio emi (get_salary s)")
    case (Inl x)
    with assms emi show ?thesis
      by (simp add: process_salary_verification_def Let_def)
  next
    case ratio: (Inr ratio)
    show ?thesis
    proof (cases "fle emi (Fin (1 / 2 * get_salary s))")
      case True
      with assms emi ratio show ?thesis
        by (auto simp: process_salary_verification_def Let_def)
    next
      case False
      with assms emi ratio show ?thesis
        by (cases "calculate_max_loan_for_emi (Fin (1 / 2 * get_salary s))
                     (get_interest_rate s) (get_loan_tenure s)")
           (auto simp: process_salary_verification_def Let_def verdict_def empty_response_def)
    qed
  qed
qed



lemma sanction_block_cases:
  "(\<exists>x fn. sanction_block e s r
      = (Inr x, s\<lparr>current_agent := ''sanction'', conversation_stage := ''generating_sanction'',
                  sanction_letter_filename := Some fn, current_agent := ''completed''\<rparr>))
   \<or> sanction_block e s r
      = (Inl IssuanceError,
         s\<lparr>current_agent := ''sanction'', conversation_stage := ''generating_sanction''\<rparr>)"
  by (auto simp: sanction_block_def generate_sanction_letter_def Let_def
      split: option.splits)


lemma issuance_failure_reported:
  assumes "issue e (s\<lparr>current_agent := ''sanction'',
                       conversation_stage := ''generating_sanction''\<rparr>) = None"
  shows "sanction_block e s r
         = (Inl IssuanceError,
            s\<lparr>current_agent := ''sanction'', conversation_stage := ''generating_sanction''\<rparr>)"
  using assms by (simp add: sanction_block_def generate_sanction_letter_def Let_def)



section \<open>Evaluating a conversation\<close>

lemmas model_defs = run_def handle_def process_message_def process_salary_upload_def
  sales_process_def verification_process_def underwriting_process_def
  process_salary_verification_def sanction_block_def generate_sanction_letter_def
  get_initial_state_def initial_response_def msg_of_def reply_def verdict_def
  empty_response_def get_loan_amount_def get_loan_tenure_def get_interest_rate_def
  get_credit_score_def get_preapproved_limit_def get_salary_def emi_to_salary_ratio_def
  find_customer_by_phone_def find_offer_by_customer_id_def
  demo_env_def failing_env_def demo_customer_def demo_customer2_def demo_offer_def
  py_float_def py_int_def parse_decimal_def parse_exponent_def fgt_def
  calculate_emi_def calculate_max_loan_for_emi_def py_pow_def round_half_even_def
  power_divide Let_def

lemma confirm_session_reached:
  "run demo_env (butlast approval_trace) get_initial_state = confirm_session"
  by (simp add: approval_trace_def confirm_session_def model_defs string_defs)


lemma run_snoc: "run e (xs @ [ev]) s = snd (handle e ev (run e xs s))"
  by (simp add: run_def)

lemma confirm_turn_succeeds:
  "snd (handle demo_env (Chat ''yes'') confirm_session) = completed_session"
  by (simp add: completed_session_def failed_session_def confirm_session_def model_defs
      string_defs)

lemma approval_trace_result: "run demo_env approval_trace get_initial_state = completed_session"
proof -
  have "approval_trace = butlast approval_trace @ [Chat ''yes'']"
    by (simp add: approval_trace_def)
  then have "run demo_env approval_trace get_initial_state
             = snd (handle demo_env (Chat ''yes'')
                 (run demo_env (butlast approval_trace) get_initial_state))"
    using run_snoc by metis
  then show ?thesis
    by (simp only: confirm_session_reached confirm_turn_succeeds)
qed

lemma upload_after_completion:
  "snd (handle demo_env (UploadSalary ''slip.pdf'') completed_session)
   = completed_session
       \<lparr>salary_slip_uploaded := True, salary_slip_path := Some ''slip.pdf'',
        underwriting_state := ''rejected'', loan_status := Some ''rejected'',
        current_agent := ''ended''\<rparr>"
  by (simp add: completed_session_def failed_session_def confirm_session_def model_defs)


section \<open>Claims about document issuance and the decision state\<close>



text \<open>
  C6. The approved amount should be set exactly when the decision is approved, in every
  reachable session. The upload endpoint runs the income verification in whatever
  stage the session is. After the conversation that ends in an approval within the
  limit, an upload re-evaluates the loan against the salary, rejects it, and leaves
  the approved amount of the earlier approval in the session.
\<close>

theorem approved_amount_survives_rejection:
  "loan_status (run demo_env approval_trace get_initial_state) = Some ''approved''
   \<and> approved_amount (run demo_env approval_trace get_initial_state) = Some (Fin 300000)
   \<and> current_agent (run demo_env approval_trace get_initial_state) = ''completed''
   \<and> loan_status (run demo_env (approval_trace @ [UploadSalary ''slip.pdf'']) get_initial_state)
     = Some ''rejected''
   \<and> underwriting_state
       (run demo_env (approval_trace @ [UploadSalary ''slip.pdf'']) get_initial_state)
     = ''rejected''
   \<and> approved_amount
       (run demo_env (approval_trace @ [UploadSalary ''slip.pdf'']) get_initial_state)
     = Some (Fin 300000)"
  by (simp add: run_snoc approval_trace_result upload_after_completion)
     (simp add: completed_session_def failed_session_def)

text \<open>
  What does hold: when the upload event is delivered only while the session waits for
  the salary slip, every session reached from the initial one has the approved amount
  set exactly when the decision is approved.
\<close>

lemma sales_process_frame:
  assumes "sales_process s m = (res, s')"
  shows "loan_status s' = loan_status s \<and> approved_amount s' = approved_amount s
         \<and> underwriting_state s' = underwriting_state s \<and> current_agent s' = current_agent s"
  using assms
  by (auto simp: sales_process_def Let_def split: if_splits sum.splits)

lemma verification_process_frame:
  assumes "verification_process e s m = (res, s')"
  shows "loan_status s' = loan_status s \<and> approved_amount s' = approved_amount s
         \<and> underwriting_state s' = underwriting_state s \<and> current_agent s' = current_agent s"
  using assms
  by (auto simp: verification_process_def Let_def split: if_splits option.splits)

lemma sanction_block_frame:
  assumes "sanction_block e s r = (res, s')"
  shows "loan_status s' = loan_status s \<and> approved_amount s' = approved_amount s
         \<and> current_agent s' \<in> {''sanction'', ''completed''}"
  using assms sanction_block_cases [of e s r] by auto

lemma underwriting_process_frame:
  assumes "underwriting_process s = (res, s')"
  shows "current_agent s' = current_agent s"
proof (cases "calculate_emi (get_loan_amount s) (get_interest_rate s) (get_loan_tenure s)")
  case (Inl x)
  with assms show ?thesis by (auto simp: underwriting_process_def Let_def)
next
  case (Inr emi)
  with assms show ?thesis
    by (auto simp: underwriting_process_def Let_def split: if_splits)
qed

lemma underwriting_process_raises:
  assumes "underwriting_process s = (Inl e, s')"
  shows "s' = s"
proof (cases "calculate_emi (get_loan_amount s) (get_interest_rate s) (get_loan_tenure s)")
  case (Inl x)
  with assms show ?thesis by (auto simp: underwriting_process_def Let_def)
next
  case (Inr emi)
  with assms show ?thesis
    by (auto simp: underwriting_process_def Let_def split: if_splits)
qed

lemma underwriting_process_not_approved:
  assumes "underwriting_process s = (Inr ur, s')" "\<not> proceed_to_sanction ur"
  shows "approved_amount s' = approved_amount s
         \<and> (if decision ur = Some ''rejected'' then loan_status s' = Some ''rejected''
             else loan_status s' = Some ''pending_verification''
                  \<and> underwriting_state s' = ''awaiting_salary_slip'')"
proof (cases "calculate_emi (get_loan_amount s) (get_interest_rate s) (get_loan_tenure s)")
  case (Inl x)
  with assms show ?thesis by (auto simp: underwriting_process_def Let_def)
next
  case emi: (Inr emi)
  consider (low) "get_credit_score s < 700"
    | (within) "\<not> get_credit_score s < 700"
        "fle (get_loan_amount s) (Fin (get_preapproved_limit s))"
    | (twice) "\<not> get_credit_score s < 700"
        "\<not> fle (get_loan_amount s) (Fin (get_preapproved_limit s))"
        "fle (get_loan_amount s) (Fin (2 * get_preapproved_limit s))"
    | (above) "\<not> get_credit_score s < 700"
        "\<not> fle (get_loan_amount s) (Fin (get_preapproved_limit s))"
        "\<not> fle (get_loan_amount s) (Fin (2 * get_preapproved_limit s))"
    by blast
  then show ?thesis
  proof cases
    case low
    with assms emi show ?thesis
      by (auto simp: underwriting_process_def Let_def verdict_def empty_response_def)
  next
    case within
    with assms emi show ?thesis
      by (auto simp: underwriting_process_def Let_def verdict_def empty_response_def)
  next
    case twice
    with assms emi show ?thesis
      by (auto simp: underwriting_process_def Let_def verdict_def empty_response_def)
  next
    case above
    with assms emi show ?thesis
      by (auto simp: underwriting_process_def Let_def verdict_def empty_response_def)
  qed
qed

lemma process_salary_verification_frame:
  assumes "process_salary_verification s = (res, s')"
  shows "current_agent s' = current_agent s"
proof (cases "calculate_emi (get_loan_amount s) (get_interest_rate s) (get_loan_tenure s)")
  case (Inl x)
  with assms show ?thesis by (auto simp: process_salary_verification_def Let_def)
next
  case emi: (Inr emi)
  show ?thesis
  proof (cases "emi_to_salary_ratio emi (get_salary s)")
    case (Inl x)
    with assms emi show ?thesis by (auto simp: process_salary_verification_def Let_def)
  next
    case ratio: (Inr ratio)
    show ?thesis
    proof (cases "fle emi (Fin (1 / 2 * get_salary s))")
      case True
      with assms emi ratio show ?thesis
        by (auto simp: process_salary_verification_def Let_def)
    next
      case False
      with assms emi ratio show ?thesis
        by (cases "calculate_max_loan_for_emi (Fin (1 / 2 * get_salary s))
                     (get_interest_rate s) (get_loan_tenure s)")
           (auto simp: process_salary_verification_def Let_def)
    qed
  qed
qed

lemma process_salary_verification_raises:
  assumes "process_salary_verification s = (Inl e, s')"
  shows "s' = s"
proof (cases "calculate_emi (get_loan_amount s) (get_interest_rate s) (get_loan_tenure s)")
  case (Inl x)
  with assms show ?thesis by (auto simp: process_salary_verification_def Let_def)
next
  case emi: (Inr emi)
  show ?thesis
  proof (cases "emi_to_salary_ratio emi (get_salary s)")
    case (Inl x)
    with assms emi show ?thesis by (auto simp: process_salary_verification_def Let_def)
  next
    case ratio: (Inr ratio)
    show ?thesis
    proof (cases "fle emi (Fin (1 / 2 * get_salary s))")
      case True
      with assms emi ratio show ?thesis
        by (auto simp: process_salary_verification_def Let_def)
    next
      case False
      with assms emi ratio show ?thesis
        by (cases "calculate_max_loan_for_emi (Fin (1 / 2 * get_salary s))
                     (get_interest_rate s) (get_loan_tenure s)")
           (auto simp: process_salary_verification_def Let_def)
    qed
  qed
qed

lemma process_salary_verification_not_approved:
  assumes "process_salary_verification s = (Inr ur, s')" "\<not> proceed_to_sanction ur"
  shows "approved_amount s' = approved_amount s \<and> loan_status s' = Some ''rejected''
         \<and> decision ur = Some ''rejected''"
proof (cases "calculate_emi (get_loan_amount s) (get_interest_rate s) (get_loan_tenure s)")
  case (Inl x)
  with assms show ?thesis by (auto simp: process_salary_verification_def Let_def)
next
  case emi: (Inr emi)
  show ?thesis
  proof (cases "emi_to_salary_ratio emi (get_salary s)")
    case (Inl x)
    with assms emi show ?thesis by (auto simp: process_salary_verification_def Let_def)
  next
    case ratio: (Inr ratio)
    show ?thesis
    proof (cases "fle emi (Fin (1 / 2 * get_salary s))")
      case True
      with assms emi ratio show ?thesis
        by (auto simp: process_salary_verification_def Let_def verdict_def empty_response_def)
    next
      case False
      with assms emi ratio show ?thesis
        by (cases "calculate_max_loan_for_emi (Fin (1 / 2 * get_salary s))
                     (get_interest_rate s) (get_loan_tenure s)")
           (auto simp: process_salary_verification_def Let_def verdict_def empty_response_def)
    qed
  qed
qed


lemma chat_preserves:
  assumes J: "decision_consistent s"
  shows "decision_consistent (snd (process_message e s m))"
proof -
  consider (g) "current_agent s = ''greeting''" | (s) "current_agent s = ''sales''"
    | (v) "current_agent s = ''verification''"
    | (o) "current_agent s \<notin> {''greeting'', ''sales'', ''verification''}"
    by blast
  then show ?thesis
  proof cases
    case g
    with J show ?thesis
      by (simp add: process_message_def decision_consistent_def)
  next
    case s
    obtain res s' where sp: "sales_process s m = (res, s')" by (cases "sales_process s m")
    note fr = sales_process_frame [OF sp]
    have st: "loan_status s' = None" "underwriting_state s' = ''pending''"
      "approved_amount s' = None"
      using J s fr by (auto simp: decision_consistent_def)
    have "snd (process_message e s m) = s'
          \<or> snd (process_message e s m)
             = s'\<lparr>current_agent := ''verification'', conversation_stage := ''verification''\<rparr>
          \<or> snd (process_message e s m) = s'\<lparr>current_agent := ''ended''\<rparr>"
      using s sp by (cases res) (simp_all add: process_message_def Let_def)
    then show ?thesis
      using st by (auto simp: decision_consistent_def)
  next
    case v
    obtain vr sv where vp: "verification_process e s m = (vr, sv)"
      by (cases "verification_process e s m")
    note fr = verification_process_frame [OF vp]
    have st: "loan_status sv = None" "underwriting_state sv = ''pending''"
      "approved_amount sv = None"
      using J v fr by (auto simp: decision_consistent_def)
    show ?thesis
    proof (cases "proceed_to_underwriting vr")
      case False
      then have "snd (process_message e s m) = sv
                 \<or> snd (process_message e s m) = sv\<lparr>current_agent := ''ended''\<rparr>"
        using v vp by (simp add: process_message_def Let_def)
      then show ?thesis
        using st by (auto simp: decision_consistent_def)
    next
      case True
      let ?s2 = "sv\<lparr>current_agent := ''underwriting'', conversation_stage := ''underwriting''\<rparr>"
      obtain res su where up: "underwriting_process ?s2 = (res, su)"
        by (cases "underwriting_process ?s2")
      have ca: "current_agent su = ''underwriting''"
        using underwriting_process_frame [OF up] by simp
      show ?thesis
      proof (cases res)
        case (Inl x)
        then have "su = ?s2" using up underwriting_process_raises by blast
        moreover have "snd (process_message e s m) = su"
          using v vp True up Inl by (simp add: process_message_def Let_def)
        ultimately show ?thesis
          using st by (simp add: decision_consistent_def)
      next
        case (Inr ur)
        show ?thesis
        proof (cases "proceed_to_sanction ur")
          case ps: True
          obtain emi where su: "su = ?s2\<lparr>calculated_emi := Some emi,
              underwriting_state := ''approved'', loan_status := Some ''approved'',
              approved_amount := Some (get_loan_amount ?s2)\<rparr>"
            using underwriting_process_approved [OF up [unfolded Inr] ps] by blast
          obtain r2 where pm: "process_message e s m = sanction_block e su r2"
            using v vp True up Inr ps by (simp add: process_message_def Let_def)
          obtain res' sf where sb: "sanction_block e su r2 = (res', sf)"
            by (cases "sanction_block e su r2")
          have "loan_status sf = Some ''approved''" "approved_amount sf \<noteq> None"
            "current_agent sf \<in> {''sanction'', ''completed''}"
            using sanction_block_frame [OF sb] su by simp_all
          then show ?thesis
            using pm sb by (auto simp: decision_consistent_def)
        next
          case nps: False
          note na = underwriting_process_not_approved [OF up [unfolded Inr] nps]
          have am: "approved_amount su = None"
            using na st by simp
          show ?thesis
          proof (cases "decision ur = Some ''rejected''")
            case True
            then have "snd (process_message e s m) = su\<lparr>current_agent := ''ended''\<rparr>"
              using v vp \<open>proceed_to_underwriting vr\<close> up Inr nps
              by (simp add: process_message_def Let_def)
            moreover have "loan_status su = Some ''rejected''"
              using na True by simp
            ultimately show ?thesis
              using am by (simp add: decision_consistent_def)
          next
            case False
            then have "snd (process_message e s m) = su"
              using v vp \<open>proceed_to_underwriting vr\<close> up Inr nps
              by (simp add: process_message_def Let_def)
            moreover have "loan_status su = Some ''pending_verification''"
              using na False by simp
            ultimately show ?thesis
              using am ca by (simp add: decision_consistent_def)
          qed
        qed
      qed
    qed
  next
    case o
    then have "snd (process_message e s m) = s"
      by (simp add: process_message_def Let_def)
    with J show ?thesis by simp
  qed
qed

lemma upload_preserves:
  assumes J: "decision_consistent s"
    and w: "current_agent s = ''underwriting''" "underwriting_state s = ''awaiting_salary_slip''"
  shows "decision_consistent (snd (handle e (UploadSalary f) s))"
proof -
  let ?sf = "s\<lparr>salary_slip_uploaded := True, salary_slip_path := Some f\<rparr>"
  have st: "loan_status ?sf = Some ''pending_verification''" "approved_amount ?sf = None"
    "current_agent ?sf = ''underwriting''"
    using J w by (auto simp: decision_consistent_def)
  obtain res sa where pv: "process_salary_verification ?sf = (res, sa)"
    by (cases "process_salary_verification ?sf")
  have ca: "current_agent sa = ''underwriting''"
    using process_salary_verification_frame [OF pv] st by simp
  have h: "handle e (UploadSalary f) s = process_salary_upload e ?sf"
    by (simp add: handle_def)
  show ?thesis
  proof (cases res)
    case (Inl x)
    then have "sa = ?sf" using pv process_salary_verification_raises by blast
    moreover have "snd (process_salary_upload e ?sf) = sa"
      using pv Inl by (simp add: process_salary_upload_def)
    ultimately show ?thesis
      using st unfolding h by (simp add: decision_consistent_def)
  next
    case (Inr ur)
    show ?thesis
    proof (cases "proceed_to_sanction ur")
      case ps: True
      have sa: "sa = ?sf\<lparr>underwriting_state := ''approved'', loan_status := Some ''approved'',
                         approved_amount := Some (get_loan_amount ?sf)\<rparr>"
        using process_salary_verification_approved [OF pv [unfolded Inr] ps] by blast
      obtain r1 where pu: "process_salary_upload e ?sf = sanction_block e sa r1"
        using pv Inr ps by (simp add: process_salary_upload_def Let_def)
      obtain res' sf where sb: "sanction_block e sa r1 = (res', sf)"
        by (cases "sanction_block e sa r1")
      have "loan_status sf = Some ''approved''" "approved_amount sf \<noteq> None"
        "current_agent sf \<in> {''sanction'', ''completed''}"
        using sanction_block_frame [OF sb] sa by simp_all
      then show ?thesis
        unfolding h using pu sb by (auto simp: decision_consistent_def)
    next
      case nps: False
      note na = process_salary_verification_not_approved [OF pv [unfolded Inr] nps]
      have "snd (process_salary_upload e ?sf) = sa\<lparr>current_agent := ''ended''\<rparr>"
        using pv Inr nps na by (simp add: process_salary_upload_def Let_def)
      moreover have "approved_amount sa = None" "loan_status sa = Some ''rejected''"
        using na st by simp_all
      ultimately show ?thesis
        unfolding h by (simp add: decision_consistent_def)
    qed
  qed
qed

lemma guarded_step_preserves:
  assumes "decision_consistent s"
  shows "decision_consistent (guarded_step e ev s)"
proof (cases ev)
  case (Chat m)
  with assms show ?thesis
    using chat_preserves [of s e m] by (simp add: guarded_step_def handle_def)
next
  case (UploadSalary f)
  with assms show ?thesis
    using upload_preserves [of s e f] by (simp add: guarded_step_def)
qed

lemma run_guarded_preserves:
  assumes "decision_consistent s"
  shows "decision_consistent (run_guarded evs s)"
  using assms
proof (induction evs arbitrary: s)
  case Nil
  then show ?case by (simp add: run_guarded_def)
next
  case (Cons x evs)
  obtain e ev where x: "x = (e, ev)" by (cases x)
  have "decision_consistent (guarded_step e ev s)"
    using Cons.prems by (rule guarded_step_preserves)
  then have "decision_consistent (run_guarded evs (guarded_step e ev s))"
    by (rule Cons.IH)
  then show ?case by (simp add: run_guarded_def x)
qed

lemma guarded_approved_amount_iff:
  "(approved_amount (run_guarded evs get_initial_state) \<noteq> None)
   = (loan_status (run_guarded evs get_initial_state) = Some ''approved'')"
proof -
  have "decision_consistent get_initial_state"
    by (simp add: decision_consistent_def get_initial_state_def)
  then have "decision_consistent (run_guarded evs get_initial_state)"
    by (rule run_guarded_preserves)
  then show ?thesis by (simp add: decision_consistent_def)
qed

end
